theory Spec2Isabelle
  imports Complex_Main
begin

section \<open>JavaScript values of a request body\<close>

text \<open>
  \<^verbatim>\<open>const { name, price, description, sku, stockQuantity } = req.body;\<close>
  destructures the parsed JSON body; a key that is absent yields \<^verbatim>\<open>undefined\<close>.
  A JSON number is kept as the rational its decimal literal denotes. \<open>JNaN\<close> cannot come
  from JSON; it is what \<^verbatim>\<open>Number(id)\<close> gives for a path parameter that is
  not a number. \<open>JObject\<close> stands for every array and object.
\<close>

datatype jsval =
    JUndefined
  | JNull
  | JBool bool
  | JNum rat
  | JNaN
  | JStr string
  | JObject

text \<open>JavaScript's truthiness, as used by \<^verbatim>\<open>!x\<close> and \<^verbatim>\<open>x || y\<close>.\<close>

fun truthy :: "jsval \<Rightarrow> bool" where
  "truthy JUndefined = False"
| "truthy JNull = False"
| "truthy (JBool b) = b"
| "truthy (JNum r) = (r \<noteq> 0)"
| "truthy JNaN = False"
| "truthy (JStr s) = (s \<noteq> [])"
| "truthy JObject = True"

definition js_or :: "jsval \<Rightarrow> jsval \<Rightarrow> jsval" where
  "js_or a b = (if truthy a then a else b)"

record body =
  name :: jsval
  price :: jsval
  description :: jsval
  sku :: jsval
  stockQuantity :: jsval

section \<open>The store\<close>

text \<open>
  Modelled from the spec: the file \<^verbatim>\<open>schema.prisma\<close> is not among the sources.
  The four row sets follow section 3 of the specification and the schema printed in the
  repository's design document (\<^verbatim>\<open>model Product\<close>, \<^verbatim>\<open>Review\<close>,
  \<^verbatim>\<open>Order\<close>, \<^verbatim>\<open>OrderProduct\<close>). \<^verbatim>\<open>Decimal(10, 2)\<close> columns are rationals;
  \<^verbatim>\<open>DateTime\<close> is a tick count; the two \<^verbatim>\<open>autoincrement()\<close>
  sequences are the counters \<open>nextProductId\<close> and \<open>nextOrderId\<close>.
\<close>

record product =
  p_id :: int
  p_name :: string
  p_price :: rat
  p_description :: "string option"
  p_sku :: "string option"
  p_stockQuantity :: int
  p_createdAt :: nat

record review =
  r_id :: int
  r_rating :: int
  r_comment :: "string option"
  r_productId :: int
  r_createdAt :: nat

record order =
  o_id :: int
  o_totalPrice :: rat
  o_createdAt :: nat

record orderProduct =
  op_productId :: int
  op_orderId :: int
  op_quantity :: int
  op_unitPrice :: rat

record db =
  products :: "product list"
  reviews :: "review list"
  orders :: "order list"
  orderProducts :: "orderProduct list"
  nextProductId :: int
  nextOrderId :: int

definition empty_db :: db where
  "empty_db = \<lparr>products = [], reviews = [], orders = [], orderProducts = [],
     nextProductId = 1, nextOrderId = 1\<rparr>"

section \<open>The Prisma client, as the handlers use it\<close>

datatype prisma_error =
    PrismaClientValidationError
  | PrismaClientKnownRequestError string

text \<open>
  Conversion of a JavaScript value to the column type the schema declares. A value of the
  wrong type makes the client throw \<open>PrismaClientValidationError\<close> before the
  database is reached. A \<^verbatim>\<open>Decimal\<close> argument may be a number or a string; how a
  string is read is the decimal library's business, not this repository's, so it is the
  parameter \<open>dec\<close> throughout.
\<close>

fun asString :: "jsval \<Rightarrow> string option" where
  "asString (JStr s) = Some s"
| "asString _ = None"

fun asOptString :: "jsval \<Rightarrow> string option option" where
  "asOptString JUndefined = Some None"
| "asOptString JNull = Some None"
| "asOptString (JStr s) = Some (Some s)"
| "asOptString _ = None"

fun asDecimal :: "(string \<Rightarrow> rat option) \<Rightarrow> jsval \<Rightarrow> rat option" where
  "asDecimal dec (JNum r) = Some r"
| "asDecimal dec (JStr s) = dec s"
| "asDecimal dec _ = None"

text \<open>
  \<^verbatim>\<open>Int\<close> is a 32-bit signed integer. The handlers check no number for being
  whole, and the client cuts a fractional number to its integer part, toward zero: a
  stock quantity 2.5 is stored as 2, and the path \<^verbatim>\<open>/products/1.5\<close> addresses
  Product 1.
\<close>

definition truncToZero :: "rat \<Rightarrow> int" where
  "truncToZero r = (if 0 \<le> r then \<lfloor>r\<rfloor> else \<lceil>r\<rceil>)"

fun asInt :: "jsval \<Rightarrow> int option" where
  "asInt (JNum r) =
     (if - (2 ^ 31) \<le> truncToZero r \<and> truncToZero r < 2 ^ 31 then Some (truncToZero r)
      else None)"
| "asInt _ = None"

text \<open>
  PostgreSQL stores a \<^verbatim>\<open>numeric(10, 2)\<close> rounded to two fractional digits, ties
  away from zero, and refuses a value whose rounded magnitude reaches \<open>10^8\<close>.
\<close>

definition round_half_away :: "rat \<Rightarrow> int" where
  "round_half_away r = (if 0 \<le> r then \<lfloor>r + 1 / 2\<rfloor> else - \<lfloor>- r + 1 / 2\<rfloor>)"

definition cents :: "rat \<Rightarrow> int" where
  "cents r = round_half_away (r * 100)"

definition numeric_10_2 :: "rat \<Rightarrow> rat option" where
  "numeric_10_2 r = (if \<bar>cents r\<bar> < 10 ^ 10 then Some (of_int (cents r) / 100) else None)"

definition findProduct :: "db \<Rightarrow> int \<Rightarrow> product option" where
  "findProduct s i = find (\<lambda>p. p_id p = i) (products s)"

definition skuTaken :: "db \<Rightarrow> string option \<Rightarrow> bool" where
  "skuTaken s k = (case k of None \<Rightarrow> False
     | Some v \<Rightarrow> list_ex (\<lambda>p. p_sku p = Some v) (products s))"

definition consumeProductId :: "db \<Rightarrow> db" where
  "consumeProductId s = s\<lparr>nextProductId := nextProductId s + 1\<rparr>"

text \<open>
  \<^verbatim>\<open>prisma.product.create({ data })\<close>. Argument validation happens in the client.
  The insert itself takes the next value of the id sequence, which PostgreSQL does not
  give back when the statement then fails on the numeric range or on the unique index of
  \<open>sku\<close> (error code P2002). \<open>now\<close> is the database clock that
  \<^verbatim>\<open>@default(now())\<close> reads for \<open>createdAt\<close>.
\<close>

definition prisma_product_create ::
  "(string \<Rightarrow> rat option) \<Rightarrow> body \<Rightarrow> nat \<Rightarrow> db \<Rightarrow> (prisma_error + product) \<times> db" where
  "prisma_product_create dec d now s =
     (case (asString (name d), asDecimal dec (price d), asOptString (description d),
            asOptString (sku d),
            (if stockQuantity d = JUndefined then Some 0 else asInt (stockQuantity d))) of
        (Some n, Some pr, Some ds, Some k, Some q) \<Rightarrow>
          (case numeric_10_2 pr of
             None \<Rightarrow> (Inl (PrismaClientKnownRequestError ''P2020''), consumeProductId s)
           | Some pr2 \<Rightarrow>
               if skuTaken s k
               then (Inl (PrismaClientKnownRequestError ''P2002''), consumeProductId s)
               else
                 (let p = \<lparr>p_id = nextProductId s, p_name = n, p_price = pr2,
                            p_description = ds, p_sku = k, p_stockQuantity = q,
                            p_createdAt = now\<rparr>
                  in (Inr p, (consumeProductId s)\<lparr>products := products s @ [p]\<rparr>)))
      | _ \<Rightarrow> (Inl PrismaClientValidationError, s))"

text \<open>
  \<^verbatim>\<open>prisma.product.update({ where: { id }, data })\<close>. A field of \<open>data\<close> that
  is \<^verbatim>\<open>undefined\<close> is left out of the statement; \<^verbatim>\<open>null\<close> is a value and
  is accepted only by the nullable columns. The outer \<open>option\<close> of each conversion is
  the validation result, the inner one says whether the field is written.
\<close>

fun updString :: "jsval \<Rightarrow> string option option" where
  "updString JUndefined = Some None"
| "updString (JStr s) = Some (Some s)"
| "updString _ = None"

fun updOptString :: "jsval \<Rightarrow> string option option option" where
  "updOptString JUndefined = Some None"
| "updOptString JNull = Some (Some None)"
| "updOptString (JStr s) = Some (Some (Some s))"
| "updOptString _ = None"

fun updDecimal :: "(string \<Rightarrow> rat option) \<Rightarrow> jsval \<Rightarrow> rat option option" where
  "updDecimal dec JUndefined = Some None"
| "updDecimal dec v = (case asDecimal dec v of None \<Rightarrow> None | Some r \<Rightarrow> Some (Some r))"

fun updInt :: "jsval \<Rightarrow> int option option" where
  "updInt JUndefined = Some None"
| "updInt v = (case asInt v of None \<Rightarrow> None | Some i \<Rightarrow> Some (Some i))"

record writes =
  w_name :: "string option"
  w_price :: "rat option"
  w_description :: "string option option"
  w_sku :: "string option option"
  w_stockQuantity :: "int option"

definition updateData :: "(string \<Rightarrow> rat option) \<Rightarrow> body \<Rightarrow> writes option" where
  "updateData dec d =
     (case (updString (name d), updDecimal dec (price d), updOptString (description d),
            updOptString (sku d), updInt (stockQuantity d)) of
        (Some wn, Some wp, Some wd, Some wk, Some wq) \<Rightarrow>
          Some \<lparr>w_name = wn, w_price = wp, w_description = wd, w_sku = wk,
                w_stockQuantity = wq\<rparr>
      | _ \<Rightarrow> None)"

definition storedPrice :: "writes \<Rightarrow> writes option" where
  "storedPrice w =
     (case w_price w of
        None \<Rightarrow> Some w
      | Some r \<Rightarrow>
          (case numeric_10_2 r of
             None \<Rightarrow> None
           | Some r2 \<Rightarrow> Some (w\<lparr>w_price := Some r2\<rparr>)))"

definition orKeep :: "'a option \<Rightarrow> 'a \<Rightarrow> 'a" where
  "orKeep w old = (case w of None \<Rightarrow> old | Some v \<Rightarrow> v)"

definition applyWrites :: "writes \<Rightarrow> product \<Rightarrow> product" where
  "applyWrites w q =
     q\<lparr>p_name := orKeep (w_name w) (p_name q),
       p_price := orKeep (w_price w) (p_price q),
       p_description := orKeep (w_description w) (p_description q),
       p_sku := orKeep (w_sku w) (p_sku q),
       p_stockQuantity := orKeep (w_stockQuantity w) (p_stockQuantity q)\<rparr>"

definition skuTakenByOther :: "db \<Rightarrow> int \<Rightarrow> string option option \<Rightarrow> bool" where
  "skuTakenByOther s i w = (case w of Some (Some v) \<Rightarrow>
        list_ex (\<lambda>p. p_id p \<noteq> i \<and> p_sku p = Some v) (products s)
      | _ \<Rightarrow> False)"

text \<open>
  A row that does not exist is error P2025; the numeric range and the unique index of
  \<open>sku\<close> are checked by the database on the row it found. No failure writes anything.
  PostgreSQL writes the updated row as a new row version, so a listing without
  \<^verbatim>\<open>orderBy\<close> (\<^verbatim>\<open>findMany()\<close>) returns it after the rows the update did
  not touch: the row leaves its place in \<open>products\<close> and is appended.
\<close>

definition prisma_product_update ::
  "(string \<Rightarrow> rat option) \<Rightarrow> jsval \<Rightarrow> body \<Rightarrow> db \<Rightarrow> (prisma_error + product) \<times> db" where
  "prisma_product_update dec idn d s =
     (case (asInt idn, updateData dec d) of
        (Some i, Some w) \<Rightarrow>
          (case findProduct s i of
             None \<Rightarrow> (Inl (PrismaClientKnownRequestError ''P2025''), s)
           | Some p \<Rightarrow>
               (case storedPrice w of
                  None \<Rightarrow> (Inl (PrismaClientKnownRequestError ''P2020''), s)
                | Some w2 \<Rightarrow>
                    if skuTakenByOther s i (w_sku w2)
                    then (Inl (PrismaClientKnownRequestError ''P2002''), s)
                    else
                      (Inr (applyWrites w2 p),
                       s\<lparr>products :=
                           filter (\<lambda>q. p_id q \<noteq> i) (products s) @ [applyWrites w2 p]\<rparr>)))
      | _ \<Rightarrow> (Inl PrismaClientValidationError, s))"

text \<open>
  \<^verbatim>\<open>prisma.product.delete({ where: { id } })\<close>. A missing row is error P2025.
  Modelled from the spec: the relations of \<^verbatim>\<open>schema.prisma\<close>, which is not among
  the sources. The schema of the design document declares \<^verbatim>\<open>onDelete: Cascade\<close> on \<^verbatim>\<open>Review.product\<close> and on
  \<^verbatim>\<open>OrderProduct.product\<close>, so the one DELETE statement removes the
  referencing rows with the parent row.
\<close>

definition prisma_product_delete :: "jsval \<Rightarrow> db \<Rightarrow> (prisma_error + product) \<times> db" where
  "prisma_product_delete idn s =
     (case asInt idn of
        None \<Rightarrow> (Inl PrismaClientValidationError, s)
      | Some i \<Rightarrow>
          (case findProduct s i of
             None \<Rightarrow> (Inl (PrismaClientKnownRequestError ''P2025''), s)
           | Some p \<Rightarrow>
               (Inr p,
                s\<lparr>products := filter (\<lambda>q. p_id q \<noteq> i) (products s),
                  reviews := filter (\<lambda>r. r_productId r \<noteq> i) (reviews s),
                  orderProducts := filter (\<lambda>r. op_productId r \<noteq> i) (orderProducts s)\<rparr>)))"

text \<open>\<^verbatim>\<open>prisma.product.findUnique({ where: { id } })\<close>: the row or \<^verbatim>\<open>null\<close>.\<close>

definition prisma_product_findUnique :: "jsval \<Rightarrow> db \<Rightarrow> prisma_error + product option" where
  "prisma_product_findUnique idn s =
     (case asInt idn of
        None \<Rightarrow> Inl PrismaClientValidationError
      | Some i \<Rightarrow> Inr (findProduct s i))"

section \<open>The route handlers of server.ts\<close>

datatype payload =
    ProductJson product
  | ProductsJson "product list"
  | ErrorJson string
  | NoContent

datatype response = Response (status: nat) (content: payload)

text \<open>\<^verbatim>\<open>app.post('/products', ...)\<close>\<close>

definition post_products ::
  "(string \<Rightarrow> rat option) \<Rightarrow> body \<Rightarrow> nat \<Rightarrow> db \<Rightarrow> response \<times> db" where
  "post_products dec b now s =
     (if \<not> truthy (name b) \<or> \<not> truthy (price b)
      then (Response 400 (ErrorJson ''Name and price are required''), s)
      else
        (case prisma_product_create dec
                \<lparr>name = name b, price = price b, description = description b, sku = sku b,
                 stockQuantity = js_or (stockQuantity b) (JNum 0)\<rparr> now s of
           (Inr p, s') \<Rightarrow> (Response 201 (ProductJson p), s')
         | (Inl e, s') \<Rightarrow> (Response 500 (ErrorJson ''Failed to create product''), s')))"

text \<open>\<^verbatim>\<open>app.get('/products', ...)\<close>\<close>

definition get_products :: "db \<Rightarrow> response" where
  "get_products s = Response 200 (ProductsJson (products s))"

text \<open>
  \<^verbatim>\<open>app.get('/products/:id', ...)\<close>. Here and below \<open>idn\<close> is the value of
  \<^verbatim>\<open>Number(id)\<close>: a \<open>JNum\<close>, or \<open>JNaN\<close>.
\<close>

definition get_product :: "jsval \<Rightarrow> db \<Rightarrow> response" where
  "get_product idn s =
     (case prisma_product_findUnique idn s of
        Inr None \<Rightarrow> Response 404 (ErrorJson ''Product not found'')
      | Inr (Some p) \<Rightarrow> Response 200 (ProductJson p)
      | Inl e \<Rightarrow> Response 500 (ErrorJson ''Failed to fetch product''))"

text \<open>\<^verbatim>\<open>app.put('/products/:id', ...)\<close>\<close>

definition put_product ::
  "(string \<Rightarrow> rat option) \<Rightarrow> jsval \<Rightarrow> body \<Rightarrow> db \<Rightarrow> response \<times> db" where
  "put_product dec idn b s =
     (case prisma_product_update dec idn
             \<lparr>name = name b, price = price b, description = description b, sku = sku b,
              stockQuantity = stockQuantity b\<rparr> s of
        (Inr p, s') \<Rightarrow> (Response 200 (ProductJson p), s')
      | (Inl e, s') \<Rightarrow> (Response 500 (ErrorJson ''Failed to update product''), s'))"

text \<open>\<^verbatim>\<open>app.delete('/products/:id', ...)\<close>\<close>

definition delete_product :: "jsval \<Rightarrow> db \<Rightarrow> response \<times> db" where
  "delete_product idn s =
     (case prisma_product_delete idn s of
        (Inr p, s') \<Rightarrow> (Response 204 NoContent, s')
      | (Inl e, s') \<Rightarrow> (Response 500 (ErrorJson ''Failed to delete product''), s'))"

section \<open>Orders\<close>

text \<open>
  Modelled from the spec: server.ts has no order route, so the failure kinds of section 7
  and the Order Transaction Coordinator of section 4.3 are written from the
  specification's words, over the store above.
\<close>

datatype failure =
    ValidationError string string
  | ConflictError string
  | NotFoundError
  | InsufficientStockError int
  | StorageFailure

text \<open>
  Modelled from the spec: section 6 fixes the status the HTTP layer gives each failure
  kind (validation failure 400, not-found 404, conflict 409, storage failure 500); it
  names none for insufficient stock.
\<close>

fun spec_status :: "failure \<Rightarrow> nat option" where
  "spec_status (ValidationError f r) = Some 400"
| "spec_status NotFoundError = Some 404"
| "spec_status (ConflictError f) = Some 409"
| "spec_status StorageFailure = Some 500"
| "spec_status (InsufficientStockError i) = None"

definition signals :: "response \<Rightarrow> failure \<Rightarrow> bool" where
  "signals r f = (spec_status f = Some (status r))"

text \<open>Modelled from the spec: a line item \<open>{productId, quantity}\<close> of section 4.3.\<close>

record lineItem =
  productId :: int
  quantity :: int

text \<open>Modelled from the spec: round-half-up at two fractional digits (step 5).\<close>

definition round_half_up_2 :: "rat \<Rightarrow> rat" where
  "round_half_up_2 r = of_int \<lfloor>r * 100 + 1 / 2\<rfloor> / 100"

text \<open>Modelled from the spec: step 2, load the Product of every line item.\<close>

fun loadLines :: "db \<Rightarrow> lineItem list \<Rightarrow> (product \<times> int) list option" where
  "loadLines s [] = Some []"
| "loadLines s (l # ls) =
     (case findProduct s (productId l) of
        None \<Rightarrow> None
      | Some p \<Rightarrow>
          (case loadLines s ls of
             None \<Rightarrow> None
           | Some r \<Rightarrow> Some ((p, quantity l) # r)))"

text \<open>
  Modelled from the spec: the stock change of one line item (step 6 decrements, the
  cancellation restores), on the Product with the given id.
\<close>

definition adjustStock :: "int \<Rightarrow> int \<Rightarrow> product list \<Rightarrow> product list" where
  "adjustStock i d ps =
     map (\<lambda>p. if p_id p = i then p\<lparr>p_stockQuantity := p_stockQuantity p + d\<rparr> else p) ps"

text \<open>
  Modelled from the spec: the OrderProduct rows of an Order, and the sum of unit price
  times quantity over rows (Invariant I2, step 5).
\<close>

definition orderRows :: "db \<Rightarrow> int \<Rightarrow> orderProduct list" where
  "orderRows s oid = filter (\<lambda>r. op_orderId r = oid) (orderProducts s)"

definition rowsTotal :: "orderProduct list \<Rightarrow> rat" where
  "rowsTotal rows = sum_list (map (\<lambda>r. op_unitPrice r * of_int (op_quantity r)) rows)"

text \<open>
  Modelled from the spec: step 3 and the OrderProduct row of step 6. The unit price of the
  row is the price the Product has when the order is made.
\<close>

definition lineRow :: "int \<Rightarrow> product \<times> int \<Rightarrow> orderProduct" where
  "lineRow oid l = \<lparr>op_productId = p_id (fst l), op_orderId = oid, op_quantity = snd l,
     op_unitPrice = p_price (fst l)\<rparr>"

text \<open>
  Modelled from the spec: \<open>createOrder(lineItems)\<close>, steps 1 to 7 of section 4.3 in
  their order. A failure leaves the store as it was.
\<close>

definition createOrder ::
  "lineItem list \<Rightarrow> nat \<Rightarrow> db \<Rightarrow> (failure + order \<times> orderProduct list) \<times> db" where
  "createOrder items now s =
     (if items = [] then (Inl (ValidationError ''lineItems'' ''empty''), s)
      else if list_ex (\<lambda>l. quantity l \<le> 0) items
      then (Inl (ValidationError ''quantity'' ''non-positive''), s)
      else if \<not> distinct (map productId items)
      then (Inl (ValidationError ''productId'' ''repeated''), s)
      else
        (case loadLines s items of
           None \<Rightarrow> (Inl NotFoundError, s)
         | Some lines \<Rightarrow>
             (case find (\<lambda>(p, q). p_stockQuantity p < q) lines of
                Some (p, q) \<Rightarrow> (Inl (InsufficientStockError (p_id p)), s)
              | None \<Rightarrow>
                  (let rows = map (lineRow (nextOrderId s)) lines;
                       ord = \<lparr>o_id = nextOrderId s,
                              o_totalPrice = round_half_up_2 (rowsTotal rows),
                              o_createdAt = now\<rparr>
                   in (Inr (ord, rows),
                       s\<lparr>products := fold (\<lambda>(p, q). adjustStock (p_id p) (- q)) lines (products s),
                         orders := orders s @ [ord],
                         orderProducts := orderProducts s @ rows,
                         nextOrderId := nextOrderId s + 1\<rparr>)))))"

text \<open>Modelled from the spec: \<open>getById\<close> of an Order, with its OrderProduct rows.\<close>

definition getOrderById :: "db \<Rightarrow> int \<Rightarrow> failure + order \<times> orderProduct list" where
  "getOrderById s oid =
     (case find (\<lambda>x. o_id x = oid) (orders s) of
        None \<Rightarrow> Inl NotFoundError
      | Some ord \<Rightarrow> Inr (ord, orderRows s oid))"

text \<open>
  Modelled from the spec: \<open>cancelOrder(orderId)\<close>: restore the stock of every
  OrderProduct row of the order, delete those rows, delete the Order row.
\<close>

definition cancelOrder :: "int \<Rightarrow> db \<Rightarrow> (failure + unit) \<times> db" where
  "cancelOrder oid s =
     (case find (\<lambda>x. o_id x = oid) (orders s) of
        None \<Rightarrow> (Inl NotFoundError, s)
      | Some ord \<Rightarrow>
          (Inr (),
           s\<lparr>products := fold (\<lambda>r. adjustStock (op_productId r) (op_quantity r))
                              (orderRows s oid) (products s),
             orderProducts := filter (\<lambda>r. op_orderId r \<noteq> oid) (orderProducts s),
             orders := filter (\<lambda>x. o_id x \<noteq> oid) (orders s)\<rparr>))"

text \<open>Modelled from the spec: Invariant I2, for every Order of the store.\<close>

definition total_consistent :: "db \<Rightarrow> bool" where
  "total_consistent s =
     list_all (\<lambda>ord. o_totalPrice ord = round_half_up_2 (rowsTotal (orderRows s (o_id ord))))
       (orders s)"

text \<open>
  A line item that asks for more units than its Product has in stock (the check of
  step 4).
\<close>

definition overdrawn :: "db \<Rightarrow> lineItem \<Rightarrow> bool" where
  "overdrawn s l = (case findProduct s (productId l) of
      None \<Rightarrow> False
    | Some p \<Rightarrow> p_stockQuantity p < quantity l)"

text \<open>
  The order sequence is ahead of every order id in use, and the units of one Product
  that an order holds.
\<close>

definition orderIdsFresh :: "db \<Rightarrow> bool" where
  "orderIdsFresh s =
     (list_all (\<lambda>x. o_id x < nextOrderId s) (orders s) \<and>
      list_all (\<lambda>r. op_orderId r < nextOrderId s) (orderProducts s))"

definition orderedQuantity :: "db \<Rightarrow> int \<Rightarrow> int \<Rightarrow> int" where
  "orderedQuantity s oid i =
     sum_list (map op_quantity (filter (\<lambda>r. op_productId r = i) (orderRows s oid)))"

section \<open>Sequences of requests\<close>

text \<open>
  The requests that write to the store, the store after one of them, and the store after
  a list of them in order.
\<close>

datatype request =
    PostProduct body nat
  | PutProduct jsval body
  | DeleteProduct jsval
  | CreateOrder "lineItem list" nat
  | CancelOrder int

fun exec :: "(string \<Rightarrow> rat option) \<Rightarrow> request \<Rightarrow> db \<Rightarrow> db" where
  "exec dec (PostProduct b now) s = snd (post_products dec b now s)"
| "exec dec (PutProduct idn b) s = snd (put_product dec idn b s)"
| "exec dec (DeleteProduct idn) s = snd (delete_product idn s)"
| "exec dec (CreateOrder items now) s = snd (createOrder items now s)"
| "exec dec (CancelOrder oid) s = snd (cancelOrder oid s)"

definition run :: "(string \<Rightarrow> rat option) \<Rightarrow> request list \<Rightarrow> db \<Rightarrow> db" where
  "run dec rs s = fold (exec dec) rs s"

text \<open>
  A request that deletes a Product which some OrderProduct row references, and a
  sequence of requests none of which does so in the store it meets.
\<close>

fun deletesOrderedProduct :: "db \<Rightarrow> request \<Rightarrow> bool" where
  "deletesOrderedProduct s (DeleteProduct idn) =
     (case asInt idn of
        None \<Rightarrow> False
      | Some i \<Rightarrow> findProduct s i \<noteq> None
                  \<and> list_ex (\<lambda>r. op_productId r = i) (orderProducts s))"
| "deletesOrderedProduct s _ = False"

fun sparesOrders :: "(string \<Rightarrow> rat option) \<Rightarrow> request list \<Rightarrow> db \<Rightarrow> bool" where
  "sparesOrders dec [] s = True"
| "sparesOrders dec (r # rs) s =
     (\<not> deletesOrderedProduct s r \<and> sparesOrders dec rs (exec dec r s))"

text \<open>
  One reader of decimal strings, for running the handlers on concrete requests: digits
  with an optional fraction.
\<close>

definition digitValue :: "char \<Rightarrow> nat" where
  "digitValue c = of_char c - 48"

definition isDigit :: "char \<Rightarrow> bool" where
  "isDigit c = (48 \<le> (of_char c :: nat) \<and> (of_char c :: nat) \<le> 57)"

definition digitsValue :: "string \<Rightarrow> nat" where
  "digitsValue cs = foldl (\<lambda>a c. 10 * a + digitValue c) 0 cs"

definition plainDecimal :: "string \<Rightarrow> rat option" where
  "plainDecimal cs =
     (let ip = takeWhile (\<lambda>c. c \<noteq> CHR ''.'') cs;
          fp = drop 1 (dropWhile (\<lambda>c. c \<noteq> CHR ''.'') cs)
      in if (ip = [] \<and> fp = []) \<or> \<not> list_all isDigit ip \<or> \<not> list_all isDigit fp then None
         else Some (of_nat (digitsValue ip) + of_nat (digitsValue fp) / 10 ^ length fp))"

section \<open>Concrete requests and stores\<close>

definition widget :: body where
  "widget = \<lparr>name = JStr ''Widget'', price = JNum (999 / 100), description = JUndefined,
     sku = JStr ''W-1'', stockQuantity = JNum 5\<rparr>"

definition widgetRow :: product where
  "widgetRow = \<lparr>p_id = 1, p_name = ''Widget'', p_price = 999 / 100, p_description = None,
     p_sku = Some ''W-1'', p_stockQuantity = 5, p_createdAt = 0\<rparr>"

definition widgetStore :: db where
  "widgetStore = \<lparr>products = [widgetRow], reviews = [], orders = [], orderProducts = [],
     nextProductId = 2, nextOrderId = 1\<rparr>"

definition freeSample :: body where
  "freeSample = \<lparr>name = JStr ''Free sample'', price = JNum 0, description = JUndefined,
     sku = JUndefined, stockQuantity = JUndefined\<rparr>"

definition restock :: body where
  "restock = \<lparr>name = JUndefined, price = JUndefined, description = JUndefined,
     sku = JUndefined, stockQuantity = JNum 7\<rparr>"

definition gadgetRow :: product where
  "gadgetRow = \<lparr>p_id = 2, p_name = ''Gadget'', p_price = 5 / 2, p_description = None,
     p_sku = None, p_stockQuantity = 1, p_createdAt = 1\<rparr>"

definition shopStore :: db where
  "shopStore = \<lparr>products = [widgetRow, gadgetRow],
     reviews = [\<lparr>r_id = 1, r_rating = 5, r_comment = None, r_productId = 1, r_createdAt = 2\<rparr>,
                \<lparr>r_id = 2, r_rating = 3, r_comment = None, r_productId = 2, r_createdAt = 3\<rparr>],
     orders = [\<lparr>o_id = 1, o_totalPrice = 1249 / 100, o_createdAt = 4\<rparr>],
     orderProducts = [\<lparr>op_productId = 1, op_orderId = 1, op_quantity = 1, op_unitPrice = 999 / 100\<rparr>,
                      \<lparr>op_productId = 2, op_orderId = 1, op_quantity = 1, op_unitPrice = 5 / 2\<rparr>],
     nextProductId = 3, nextOrderId = 2\<rparr>"

definition shopWithoutWidget :: db where
  "shopWithoutWidget = \<lparr>products = [gadgetRow],
     reviews = [\<lparr>r_id = 2, r_rating = 3, r_comment = None, r_productId = 2, r_createdAt = 3\<rparr>],
     orders = [\<lparr>o_id = 1, o_totalPrice = 1249 / 100, o_createdAt = 4\<rparr>],
     orderProducts = [\<lparr>op_productId = 2, op_orderId = 1, op_quantity = 1, op_unitPrice = 5 / 2\<rparr>],
     nextProductId = 3, nextOrderId = 2\<rparr>"




definition widgetOrder :: order where
  "widgetOrder = \<lparr>o_id = 1, o_totalPrice = 1998 / 100, o_createdAt = 1\<rparr>"

definition widgetLine :: orderProduct where
  "widgetLine = \<lparr>op_productId = 1, op_orderId = 1, op_quantity = 2, op_unitPrice = 999 / 100\<rparr>"

definition orderedStore :: db where
  "orderedStore = \<lparr>products = [widgetRow\<lparr>p_stockQuantity := 3\<rparr>], reviews = [],
     orders = [widgetOrder], orderProducts = [widgetLine], nextProductId = 2, nextOrderId = 2\<rparr>"

definition twoWidgets :: "lineItem list" where
  "twoWidgets = [\<lparr>productId = 1, quantity = 2\<rparr>]"

definition overOrder :: "lineItem list" where
  "overOrder = [\<lparr>productId = 1, quantity = 6\<rparr>]"

definition repeatedOverOrder :: "lineItem list" where
  "repeatedOverOrder = [\<lparr>productId = 1, quantity = 6\<rparr>, \<lparr>productId = 1, quantity = 6\<rparr>]"

definition unknownOverOrder :: "lineItem list" where
  "unknownOverOrder = [\<lparr>productId = 1, quantity = 6\<rparr>, \<lparr>productId = 99, quantity = 1\<rparr>]"

section \<open>Product routes: what the handlers do\<close>

lemma numeric_10_2_scale:
  assumes "numeric_10_2 r = Some v"
  shows "\<exists>c::int. v = of_int c / 100"
proof -
  from assms have "v = of_int (cents r) / 100"
    unfolding numeric_10_2_def by (cases "\<bar>cents r\<bar> < 10 ^ 10") simp_all
  then show ?thesis by (rule exI)
qed

lemma truncToZero_of_int [simp]: "truncToZero (of_int n) = n"
  by (simp add: truncToZero_def)

lemma truncToZero_numeral [simp]:
  "truncToZero 0 = 0" "truncToZero 1 = 1" "truncToZero (numeral k) = numeral k"
  by (simp_all add: truncToZero_def)



lemma prisma_product_create_Inr:
  assumes "prisma_product_create dec d now s = (Inr p, s')"
  shows "(if stockQuantity d = JUndefined then Some 0 else asInt (stockQuantity d)) = Some (p_stockQuantity p)
       \<and> (\<exists>c::int. p_price p = of_int c / 100)
       \<and> p_id p = nextProductId s
       \<and> s' = (consumeProductId s)\<lparr>products := products s @ [p]\<rparr>"
  using assms unfolding prisma_product_create_def
  by (auto split: option.splits if_splits dest: numeric_10_2_scale simp: Let_def)



lemma prisma_product_create_Inl:
  assumes "prisma_product_create dec d now s = (Inl e, s')"
  shows "s' = s \<or> s' = consumeProductId s"
  using assms unfolding prisma_product_create_def
  by (auto split: option.splits if_splits simp: Let_def)

lemma prisma_product_create_taken:
  assumes "sku d = JStr k" and "list_ex (\<lambda>p. p_sku p = Some k) (products s)"
  shows "\<exists>e s'. prisma_product_create dec d now s = (Inl e, s')"
  using assms unfolding prisma_product_create_def
  by (auto split: option.splits if_splits simp: Let_def skuTaken_def)

text \<open>
  C6, as the handler has it. A creation whose \<open>sku\<close> is already carried by a stored
  Product never answers 201: the answer is the 400 of the required-field check or the
  500 of the \<^verbatim>\<open>catch\<close> block (which does not tell a unique violation from any
  other error), and no row of any kind is added.
\<close>

theorem post_products_duplicate_sku:
  assumes "sku b = JStr k" and "list_ex (\<lambda>p. p_sku p = Some k) (products s)"
  shows "(fst (post_products dec b now s) = Response 400 (ErrorJson ''Name and price are required'')
          \<or> fst (post_products dec b now s) = Response 500 (ErrorJson ''Failed to create product''))
       \<and> products (snd (post_products dec b now s)) = products s
       \<and> reviews (snd (post_products dec b now s)) = reviews s
       \<and> orders (snd (post_products dec b now s)) = orders s
       \<and> orderProducts (snd (post_products dec b now s)) = orderProducts s"
proof (cases "\<not> truthy (name b) \<or> \<not> truthy (price b)")
  case True
  then show ?thesis by (simp add: post_products_def)
next
  case False
  let ?d = "\<lparr>name = name b, price = price b, description = description b, sku = sku b,
             stockQuantity = js_or (stockQuantity b) (JNum 0)\<rparr>"
  from assms have "\<exists>e s'. prisma_product_create dec ?d now s = (Inl e, s')"
    by (intro prisma_product_create_taken) simp_all
  then obtain e s' where c: "prisma_product_create dec ?d now s = (Inl e, s')" by blast
  from prisma_product_create_Inl[OF c] have "s' = s \<or> s' = consumeProductId s" .
  with False c show ?thesis
    by (auto simp: post_products_def consumeProductId_def)
qed

lemma prisma_product_delete_cases:
  assumes "prisma_product_delete idn s = (r, s')"
  shows "(\<exists>e. r = Inl e \<and> s' = s) \<or>
         (\<exists>i p. r = Inr p \<and> asInt idn = Some i \<and> findProduct s i = Some p \<and>
            s' = s\<lparr>products := filter (\<lambda>q. p_id q \<noteq> i) (products s),
                   reviews := filter (\<lambda>r. r_productId r \<noteq> i) (reviews s),
                   orderProducts := filter (\<lambda>r. op_productId r \<noteq> i) (orderProducts s)\<rparr>)"
  using assms unfolding prisma_product_delete_def
  by (auto split: option.splits)

lemma find_filter_none: "find (\<lambda>p. p_id p = i) (filter (\<lambda>q. p_id q \<noteq> i) ps) = None"
  by (induction ps) auto

lemma find_filter_other:
  "i \<noteq> j \<Longrightarrow> find (\<lambda>p. p_id p = i) (filter (\<lambda>q. p_id q \<noteq> j) ps)
     = find (\<lambda>p. p_id p = i) ps"
  by (induction ps) auto

lemma find_app:
  "find P (xs @ ys) = (case find P xs of None \<Rightarrow> find P ys | Some x \<Rightarrow> Some x)"
  by (induction xs) auto

lemma findProduct_found: "findProduct s i = Some p \<Longrightarrow> p \<in> set (products s) \<and> p_id p = i"
  unfolding findProduct_def by (auto simp: find_Some_iff)

lemma updateData_frame:
  assumes "updateData dec d = Some w"
  shows "(name d = JUndefined \<longrightarrow> w_name w = None)
       \<and> (price d = JUndefined \<longrightarrow> w_price w = None)
       \<and> (description d = JUndefined \<longrightarrow> w_description w = None)
       \<and> (sku d = JUndefined \<longrightarrow> w_sku w = None)
       \<and> (stockQuantity d = JUndefined \<longrightarrow> w_stockQuantity w = None)"
  using assms unfolding updateData_def
  by (auto split: option.splits)

lemma storedPrice_frame:
  assumes "storedPrice w = Some w2"
  shows "w_name w2 = w_name w \<and> (w_price w = None \<longrightarrow> w_price w2 = None)
       \<and> w_description w2 = w_description w \<and> w_sku w2 = w_sku w
       \<and> w_stockQuantity w2 = w_stockQuantity w"
  using assms unfolding storedPrice_def
  by (auto split: option.splits)

lemma prisma_product_update_Inl:
  assumes "prisma_product_update dec idn d s = (Inl e, s')"
  shows "s' = s"
  using assms unfolding prisma_product_update_def
  by (auto split: option.splits if_splits)

lemma prisma_product_update_Inr:
  assumes "prisma_product_update dec idn d s = (Inr p', s')"
  shows "\<exists>j w w2 p0. asInt idn = Some j \<and> updateData dec d = Some w \<and> storedPrice w = Some w2
           \<and> findProduct s j = Some p0 \<and> p' = applyWrites w2 p0
           \<and> s' = s\<lparr>products := filter (\<lambda>q. p_id q \<noteq> j) (products s) @ [applyWrites w2 p0]\<rparr>"
  using assms unfolding prisma_product_update_def
  by (auto split: option.splits if_splits)

lemma applyWrites_keeps [simp]:
  "p_id (applyWrites w q) = p_id q" "p_createdAt (applyWrites w q) = p_createdAt q"
  by (simp_all add: applyWrites_def)

text \<open>
  C10. After \<^verbatim>\<open>PUT /products/:id\<close>, whatever it answers, every stored Product
  is still stored under its id, with its \<open>createdAt\<close> and with every field whose key
  the request body lacks unchanged; a Product other than the addressed one is unchanged
  altogether; an answer other than 200 leaves the whole store as it was; the ids in use
  are the same; and no other row set is touched.
\<close>

theorem put_product_frame:
  assumes "put_product dec idn b s = (resp, s')" and "findProduct s i = Some p"
  shows "\<exists>p'. findProduct s' i = Some p'
       \<and> p_id p' = p_id p \<and> p_createdAt p' = p_createdAt p
       \<and> (name b = JUndefined \<longrightarrow> p_name p' = p_name p)
       \<and> (price b = JUndefined \<longrightarrow> p_price p' = p_price p)
       \<and> (description b = JUndefined \<longrightarrow> p_description p' = p_description p)
       \<and> (sku b = JUndefined \<longrightarrow> p_sku p' = p_sku p)
       \<and> (stockQuantity b = JUndefined \<longrightarrow> p_stockQuantity p' = p_stockQuantity p)
       \<and> (asInt idn \<noteq> Some i \<longrightarrow> p' = p)
       \<and> (status resp \<noteq> 200 \<longrightarrow> s' = s)
       \<and> p_id ` set (products s') = p_id ` set (products s)
       \<and> reviews s' = reviews s \<and> orders s' = orders s
       \<and> orderProducts s' = orderProducts s"
proof -
  let ?d = "\<lparr>name = name b, price = price b, description = description b, sku = sku b,
             stockQuantity = stockQuantity b\<rparr>"
  obtain r t where u: "prisma_product_update dec idn ?d s = (r, t)"
    by (cases "prisma_product_update dec idn ?d s")
  show ?thesis
  proof (cases r)
    case (Inl e)
    with u prisma_product_update_Inl[of dec idn ?d s e t] have "t = s" by simp
    with Inl u assms show ?thesis by (auto simp: put_product_def)
  next
    case (Inr p1)
    with u have "prisma_product_update dec idn ?d s = (Inr p1, t)" by simp
    from prisma_product_update_Inr[OF this]
    obtain j w w2 p0 where j: "asInt idn = Some j" and w: "updateData dec ?d = Some w"
      and w2: "storedPrice w = Some w2" and p0: "findProduct s j = Some p0"
      and t: "t = s\<lparr>products := filter (\<lambda>q. p_id q \<noteq> j) (products s) @ [applyWrites w2 p0]\<rparr>"
      by blast
    from Inr u assms have s': "s' = t" and rs: "status resp = 200"
      by (auto simp: put_product_def)
    from findProduct_found[OF assms(2)] have pi: "p_id p = i" by blast
    from findProduct_found[OF p0] have p0s: "p0 \<in> set (products s)" by blast
    from findProduct_found[OF p0] have p0j: "p_id p0 = j" by blast
    have ids: "p_id ` set (products s') = p_id ` set (products s)"
      unfolding s' t using p0s p0j by force
    from updateData_frame[OF w] storedPrice_frame[OF w2]
    have fr: "(name b = JUndefined \<longrightarrow> w_name w2 = None)"
      "(price b = JUndefined \<longrightarrow> w_price w2 = None)"
      "(description b = JUndefined \<longrightarrow> w_description w2 = None)"
      "(sku b = JUndefined \<longrightarrow> w_sku w2 = None)"
      "(stockQuantity b = JUndefined \<longrightarrow> w_stockQuantity w2 = None)"
      by simp_all
    show ?thesis
    proof (cases "i = j")
      case True
      with assms(2) p0 have pp: "p0 = p" by simp
      have f: "findProduct s' i = Some (applyWrites w2 p)"
        unfolding s' t findProduct_def True pp[symmetric]
        by (simp add: find_app find_filter_none p0j)
      from f fr j True ids rs show ?thesis
        unfolding s' t by (simp add: applyWrites_def orKeep_def)
    next
      case False
      have f: "findProduct s' i = Some p"
        using assms(2) False unfolding s' t findProduct_def
        by (simp add: find_app find_filter_other)
      from f j False ids rs show ?thesis
        unfolding s' t by simp
    qed
  qed
qed



text \<open>
  C8. A request with a name and the price 0 is turned away with 400 by the guard
  \<^verbatim>\<open>if (!name || !price)\<close>, since 0 is falsy; the create call behind the guard
  accepts the same data and would store the price 0.
\<close>

theorem post_products_zero_price_rejected:
  "post_products plainDecimal freeSample 0 empty_db
     = (Response 400 (ErrorJson ''Name and price are required''), empty_db)
   \<and> signals (fst (post_products plainDecimal freeSample 0 empty_db))
        (ValidationError ''price'' ''required'')
   \<and> fst (prisma_product_create plainDecimal freeSample 0 empty_db)
       = Inr \<lparr>p_id = 1, p_name = ''Free sample'', p_price = 0, p_description = None,
              p_sku = None, p_stockQuantity = 0, p_createdAt = 0\<rparr>"
  by code_simp

theorem post_products_zero_price_status:
  "status (fst (post_products plainDecimal freeSample 0 empty_db)) = 400
   \<and> snd (post_products plainDecimal freeSample 0 empty_db) = empty_db"
  using post_products_zero_price_rejected by simp

lemma widget_duplicate:
  "post_products plainDecimal widget 7 widgetStore
     = (Response 500 (ErrorJson ''Failed to create product''), consumeProductId widgetStore)"
  by code_simp

text \<open>
  C6 as stated fails: the second creation of the same \<open>sku\<close> is answered with 500 and
  the text of the \<^verbatim>\<open>catch\<close> block, the status the specification gives a storage
  failure, not the 409 it gives a conflict.
\<close>

theorem post_products_duplicate_sku_counterexample:
  "sku widget = JStr ''W-1'' \<and> p_sku widgetRow = Some ''W-1'' \<and> products widgetStore = [widgetRow]
   \<and> fst (post_products plainDecimal widget 7 widgetStore)
        = Response 500 (ErrorJson ''Failed to create product'')
   \<and> \<not> signals (fst (post_products plainDecimal widget 7 widgetStore)) (ConflictError ''sku'')
   \<and> signals (fst (post_products plainDecimal widget 7 widgetStore)) StorageFailure"
  by (simp add: widget_duplicate signals_def) (simp add: widget_def widgetRow_def widgetStore_def)

theorem post_products_duplicate_sku_witness:
  "sku widget = JStr ''W-1'' \<and> list_ex (\<lambda>p. p_sku p = Some ''W-1'') (products widgetStore)
   \<and> fst (post_products plainDecimal widget 7 widgetStore)
        = Response 500 (ErrorJson ''Failed to create product'')
   \<and> products (snd (post_products plainDecimal widget 7 widgetStore)) = [widgetRow]"
proof -
  have a: "sku widget = JStr ''W-1''" by (simp add: widget_def)
  have b: "list_ex (\<lambda>p. p_sku p = Some ''W-1'') (products widgetStore)"
    by (simp add: widgetStore_def widgetRow_def)
  have c: "fst (post_products plainDecimal widget 7 widgetStore)
        \<noteq> Response 400 (ErrorJson ''Name and price are required'')"
    by (simp add: widget_duplicate)
  have d: "products widgetStore = [widgetRow]" by (simp add: widgetStore_def)
  from post_products_duplicate_sku [OF a b, of plainDecimal 7] a b c d show ?thesis
    by metis
qed

text \<open>
  Fractional numbers on concrete requests: a stock quantity of 2.5 is stored as 2, and
  the ids 1.5 and 1.9 address Product 1 for reading, deleting and updating.
\<close>

lemma fractional_numbers_truncate:
  "fst (post_products plainDecimal (widget\<lparr>stockQuantity := JNum (5 / 2)\<rparr>) 0 empty_db)
     = Response 201 (ProductJson (widgetRow\<lparr>p_stockQuantity := 2\<rparr>))"
  "get_product (JNum (3 / 2)) widgetStore = Response 200 (ProductJson widgetRow)"
  "delete_product (JNum (3 / 2)) shopStore = (Response 204 NoContent, shopWithoutWidget)"
  "fst (put_product plainDecimal (JNum (19 / 10)) restock widgetStore)
     = Response 200 (ProductJson (widgetRow\<lparr>p_stockQuantity := 7\<rparr>))"
  by code_simp+

text \<open>
  An update moves the row to the end of the listing; the rows it did not address keep
  their order.
\<close>

lemma updated_row_listed_last:
  "get_products (snd (put_product plainDecimal (JNum 1) restock shopStore))
     = Response 200 (ProductsJson [gadgetRow, widgetRow\<lparr>p_stockQuantity := 7\<rparr>])"
  by code_simp

text \<open>
  C7. Deleting an id that has no row, on the empty store or after the row was deleted,
  is answered with 500 and the text of the \<^verbatim>\<open>catch\<close> block, not with the 404 of
  a missing resource, which \<^verbatim>\<open>GET /products/:id\<close> does give for the same id.
\<close>

theorem delete_product_missing_gives_500:
  "delete_product (JNum 1) empty_db
     = (Response 500 (ErrorJson ''Failed to delete product''), empty_db)
   \<and> \<not> signals (fst (delete_product (JNum 1) empty_db)) NotFoundError
   \<and> delete_product (JNum 1) shopWithoutWidget
     = (Response 500 (ErrorJson ''Failed to delete product''), shopWithoutWidget)
   \<and> get_product (JNum 1) empty_db = Response 404 (ErrorJson ''Product not found'')
   \<and> signals (get_product (JNum 1) empty_db) NotFoundError"
  by (simp add: delete_product_def prisma_product_delete_def findProduct_def empty_db_def
      signals_def get_product_def prisma_product_findUnique_def shopWithoutWidget_def
      gadgetRow_def)

lemma widget_restocked:
  "put_product plainDecimal (JNum 1) restock widgetStore
     = (Response 200 (ProductJson (widgetRow\<lparr>p_stockQuantity := 7\<rparr>)),
        widgetStore\<lparr>products := [widgetRow\<lparr>p_stockQuantity := 7\<rparr>]\<rparr>)"
  by (simp add: put_product_def prisma_product_update_def updateData_def storedPrice_def
      applyWrites_def orKeep_def skuTakenByOther_def findProduct_def restock_def
      widgetStore_def widgetRow_def)

theorem put_product_frame_witness:
  "put_product plainDecimal (JNum 1) restock widgetStore
     = (Response 200 (ProductJson (widgetRow\<lparr>p_stockQuantity := 7\<rparr>)),
        widgetStore\<lparr>products := [widgetRow\<lparr>p_stockQuantity := 7\<rparr>]\<rparr>)
   \<and> findProduct widgetStore 1 = Some widgetRow
   \<and> name restock = JUndefined \<and> price restock = JUndefined \<and> description restock = JUndefined
   \<and> sku restock = JUndefined
   \<and> (\<exists>p'. findProduct (widgetStore\<lparr>products := [widgetRow\<lparr>p_stockQuantity := 7\<rparr>]\<rparr>) 1 = Some p'
         \<and> p_id p' = p_id widgetRow \<and> p_createdAt p' = p_createdAt widgetRow
         \<and> p_name p' = p_name widgetRow \<and> p_price p' = p_price widgetRow
         \<and> p_description p' = p_description widgetRow \<and> p_sku p' = p_sku widgetRow
         \<and> p_stockQuantity p' = 7)"
proof -
  have f: "findProduct widgetStore 1 = Some widgetRow"
    by (simp add: findProduct_def widgetStore_def widgetRow_def)
  have u: "name restock = JUndefined \<and> price restock = JUndefined
     \<and> description restock = JUndefined \<and> sku restock = JUndefined"
    by (simp add: restock_def)
  have g: "findProduct (widgetStore\<lparr>products := [widgetRow\<lparr>p_stockQuantity := 7\<rparr>]\<rparr>) 1
      = Some (widgetRow\<lparr>p_stockQuantity := 7\<rparr>)"
    by (simp add: findProduct_def widgetRow_def)
  from put_product_frame [OF widget_restocked f] u g
  have "\<exists>p'. findProduct (widgetStore\<lparr>products := [widgetRow\<lparr>p_stockQuantity := 7\<rparr>]\<rparr>) 1 = Some p'
         \<and> p_id p' = p_id widgetRow \<and> p_createdAt p' = p_createdAt widgetRow
         \<and> p_name p' = p_name widgetRow \<and> p_price p' = p_price widgetRow
         \<and> p_description p' = p_description widgetRow \<and> p_sku p' = p_sku widgetRow
         \<and> p_stockQuantity p' = 7"
    by auto
  with widget_restocked f u show ?thesis by blast
qed

section \<open>Orders: totals, rejection and cancellation\<close>

lemma fold_adjustStock:
  "fold (\<lambda>x. adjustStock (f x) (g x)) xs ps
     = map (\<lambda>p. p\<lparr>p_stockQuantity := p_stockQuantity p
                      + sum_list (map g (filter (\<lambda>x. f x = p_id p) xs))\<rparr>) ps"
proof (induction xs arbitrary: ps)
  case Nil
  show ?case by (simp add: map_idI)
next
  case (Cons x xs)
  show ?case
    by (simp add: Cons.IH) (auto simp: adjustStock_def)
qed

lemma post_products_orders:
  "orders (snd (post_products dec b now s)) = orders s
   \<and> orderProducts (snd (post_products dec b now s)) = orderProducts s
   \<and> nextOrderId (snd (post_products dec b now s)) = nextOrderId s"
proof -
  let ?d = "\<lparr>name = name b, price = price b, description = description b, sku = sku b,
             stockQuantity = js_or (stockQuantity b) (JNum 0)\<rparr>"
  obtain r t where c: "prisma_product_create dec ?d now s = (r, t)"
    by (cases "prisma_product_create dec ?d now s")
  show ?thesis
  proof (cases r)
    case (Inl e)
    with c prisma_product_create_Inl[of dec ?d now s e t]
    show ?thesis by (auto simp: post_products_def consumeProductId_def)
  next
    case (Inr p)
    with c prisma_product_create_Inr[of dec ?d now s p t]
    show ?thesis by (auto simp: post_products_def consumeProductId_def)
  qed
qed

lemma put_product_orders:
  "orders (snd (put_product dec idn b s)) = orders s
   \<and> orderProducts (snd (put_product dec idn b s)) = orderProducts s
   \<and> nextOrderId (snd (put_product dec idn b s)) = nextOrderId s"
proof -
  let ?d = "\<lparr>name = name b, price = price b, description = description b, sku = sku b,
             stockQuantity = stockQuantity b\<rparr>"
  obtain r t where c: "prisma_product_update dec idn ?d s = (r, t)"
    by (cases "prisma_product_update dec idn ?d s")
  show ?thesis
  proof (cases r)
    case (Inl e)
    with c prisma_product_update_Inl[of dec idn ?d s e t]
    show ?thesis by (auto simp: put_product_def)
  next
    case (Inr p)
    with c prisma_product_update_Inr[of dec idn ?d s p t]
    show ?thesis by (auto simp: put_product_def)
  qed
qed

lemma delete_product_cascade_shape:
  assumes "delete_product idn s = (resp, s')"
  shows "s' = s \<or> (\<exists>i. asInt idn = Some i \<and> findProduct s i \<noteq> None \<and>
                s' = s\<lparr>products := filter (\<lambda>q. p_id q \<noteq> i) (products s),
                   reviews := filter (\<lambda>r. r_productId r \<noteq> i) (reviews s),
                   orderProducts := filter (\<lambda>r. op_productId r \<noteq> i) (orderProducts s)\<rparr>)"
proof -
  obtain r t where d: "prisma_product_delete idn s = (r, t)" by (cases "prisma_product_delete idn s")
  from prisma_product_delete_cases[OF d] d assms show ?thesis
    by (auto simp: delete_product_def)
qed

lemma delete_product_orders:
  "orders (snd (delete_product idn s)) = orders s
   \<and> nextOrderId (snd (delete_product idn s)) = nextOrderId s
   \<and> set (orderProducts (snd (delete_product idn s))) \<subseteq> set (orderProducts s)"
proof -
  obtain resp s' where d: "delete_product idn s = (resp, s')" by (cases "delete_product idn s")
  from delete_product_cascade_shape[OF d] d show ?thesis by auto
qed

lemma createOrder_Inl:
  assumes "createOrder items now s = (Inl e, s')"
  shows "s' = s"
  using assms unfolding createOrder_def
  by (auto split: if_splits option.splits prod.splits simp: Let_def)

lemma createOrder_Inr:
  assumes "createOrder items now s = (Inr (ord, rows), s')"
  shows "\<exists>lines. loadLines s items = Some lines
       \<and> find (\<lambda>(p, q). p_stockQuantity p < q) lines = None
       \<and> rows = map (lineRow (nextOrderId s)) lines
       \<and> ord = \<lparr>o_id = nextOrderId s, o_totalPrice = round_half_up_2 (rowsTotal rows),
                 o_createdAt = now\<rparr>
       \<and> s' = s\<lparr>products := fold (\<lambda>(p, q). adjustStock (p_id p) (- q)) lines (products s),
                 orders := orders s @ [ord],
                 orderProducts := orderProducts s @ rows,
                 nextOrderId := nextOrderId s + 1\<rparr>"
  using assms unfolding createOrder_def
  by (auto split: if_splits option.splits prod.splits simp: Let_def)

lemma filter_lineRow_same [simp]:
  "filter (\<lambda>r. op_orderId r = n) (map (lineRow n) ls) = map (lineRow n) ls"
  by (induction ls) (auto simp: lineRow_def)

lemma filter_lineRow_other [simp]:
  "m \<noteq> n \<Longrightarrow> filter (\<lambda>r. op_orderId r = m) (map (lineRow n) ls) = []"
  by (induction ls) (auto simp: lineRow_def)

lemma filter_lineRow_neq [simp]:
  "filter (\<lambda>r. op_orderId r \<noteq> n) (map (lineRow n) ls) = []"
  by (induction ls) (auto simp: lineRow_def)

lemma fresh_rows_none:
  "list_all (\<lambda>r. op_orderId r < n) rs \<Longrightarrow> filter (\<lambda>r. op_orderId r = n) rs = []"
  by (induction rs) auto

lemma fresh_rows_all:
  "list_all (\<lambda>r. op_orderId r < n) rs \<Longrightarrow> filter (\<lambda>r. op_orderId r \<noteq> n) rs = rs"
  by (induction rs) auto

lemma fresh_orders_all:
  "list_all (\<lambda>x. o_id x < n) os \<Longrightarrow> filter (\<lambda>x. o_id x \<noteq> n) os = os"
  by (induction os) auto

lemma fresh_orders_find:
  "list_all (\<lambda>x. o_id x < n) os \<Longrightarrow> find (\<lambda>x. o_id x = n) os = None"
  by (induction os) auto

lemma createOrder_fresh:
  assumes "orderIdsFresh s"
  shows "orderIdsFresh (snd (createOrder items now s))"
proof (cases "fst (createOrder items now s)")
  case (Inl e)
  then have "createOrder items now s = (Inl e, snd (createOrder items now s))"
    by (metis prod.collapse)
  from createOrder_Inl[OF this] assms show ?thesis by simp
next
  case (Inr res)
  then have "createOrder items now s = (Inr (fst res, snd res), snd (createOrder items now s))"
    by (metis prod.collapse)
  from createOrder_Inr[OF this] obtain lines where
    s': "snd (createOrder items now s)
          = s\<lparr>products := fold (\<lambda>(p, q). adjustStock (p_id p) (- q)) lines (products s),
                 orders := orders s @ [fst res],
                 orderProducts := orderProducts s @ snd res,
                 nextOrderId := nextOrderId s + 1\<rparr>"
    and r: "snd res = map (lineRow (nextOrderId s)) lines"
    and o: "fst res = \<lparr>o_id = nextOrderId s, o_totalPrice = round_half_up_2 (rowsTotal (snd res)),
                 o_createdAt = now\<rparr>"
    by blast
  have "o_id (fst res) = nextOrderId s" by (subst o) simp
  with assms show ?thesis
    unfolding s' r orderIdsFresh_def
    by (auto simp: list_all_iff lineRow_def)
qed


lemma cancelOrder_shape:
  "cancelOrder oid s = (Inl NotFoundError, s) \<and> find (\<lambda>x. o_id x = oid) (orders s) = None
   \<or> find (\<lambda>x. o_id x = oid) (orders s) \<noteq> None \<and>
      cancelOrder oid s =
       (Inr (),
        s\<lparr>products := fold (\<lambda>r. adjustStock (op_productId r) (op_quantity r))
                           (orderRows s oid) (products s),
          orderProducts := filter (\<lambda>r. op_orderId r \<noteq> oid) (orderProducts s),
          orders := filter (\<lambda>x. o_id x \<noteq> oid) (orders s)\<rparr>)"
  unfolding cancelOrder_def by (auto split: option.splits)

lemma cancelOrder_fresh:
  assumes "orderIdsFresh s"
  shows "orderIdsFresh (snd (cancelOrder oid s))"
  using assms cancelOrder_shape[of oid s]
  by (auto simp: orderIdsFresh_def list_all_iff)


lemma find_snoc:
  "find P xs = None \<Longrightarrow> find P (xs @ [y]) = (if P y then Some y else None)"
  by (induction xs) auto



lemma exec_fresh:
  assumes "orderIdsFresh s"
  shows "orderIdsFresh (exec dec r s)"
proof (cases r)
  case (PostProduct b now)
  with assms post_products_orders[of dec b now s] show ?thesis
    by (simp add: orderIdsFresh_def)
next
  case (PutProduct idn b)
  with assms put_product_orders[of dec idn b s] show ?thesis
    by (simp add: orderIdsFresh_def)
next
  case (DeleteProduct idn)
  with assms delete_product_orders[of idn s] show ?thesis
    by (auto simp: orderIdsFresh_def list_all_iff)
next
  case (CreateOrder items now)
  with assms show ?thesis by (simp add: createOrder_fresh)
next
  case (CancelOrder oid)
  with assms show ?thesis by (simp add: cancelOrder_fresh)
qed


lemma run_fresh:
  "orderIdsFresh s \<Longrightarrow> orderIdsFresh (run dec rs s)"
  unfolding run_def by (induction rs arbitrary: s) (simp_all add: exec_fresh)


lemma empty_db_fresh: "orderIdsFresh empty_db" "total_consistent empty_db"
  by (simp_all add: orderIdsFresh_def total_consistent_def empty_db_def)

lemma createOrder_readable:
  assumes "orderIdsFresh s" and "createOrder items now s = (Inr (ord, rows), s')"
  shows "getOrderById s' (o_id ord) = Inr (ord, rows)
       \<and> o_totalPrice ord = round_half_up_2 (rowsTotal rows)"
proof -
  from createOrder_Inr[OF assms(2)] obtain lines where
    s': "s' = s\<lparr>products := fold (\<lambda>(p, q). adjustStock (p_id p) (- q)) lines (products s),
                 orders := orders s @ [ord],
                 orderProducts := orderProducts s @ rows,
                 nextOrderId := nextOrderId s + 1\<rparr>"
    and r: "rows = map (lineRow (nextOrderId s)) lines"
    and o: "ord = \<lparr>o_id = nextOrderId s, o_totalPrice = round_half_up_2 (rowsTotal rows),
                 o_createdAt = now\<rparr>"
    by blast
  have oi: "o_id ord = nextOrderId s"
    and ot: "o_totalPrice ord = round_half_up_2 (rowsTotal rows)"
    by (subst o, simp)+
  from assms(1) have none: "filter (\<lambda>r. op_orderId r = nextOrderId s) (orderProducts s) = []"
    and nf: "find (\<lambda>x. o_id x = nextOrderId s) (orders s) = None"
    by (simp_all add: orderIdsFresh_def fresh_rows_none fresh_orders_find)
  have "find (\<lambda>x. o_id x = nextOrderId s) (orders s @ [ord]) = Some ord"
    using nf oi by (simp add: find_snoc)
  then have "getOrderById s' (o_id ord) = Inr (ord, rows)"
    unfolding getOrderById_def s' oi orderRows_def by (simp add: none r)
  with ot show ?thesis by simp
qed




text \<open>
  A fractional id addresses the Product of its integer part, so deleting
  \<^verbatim>\<open>/products/1.5\<close> after an order of Product 1 is a deletion of an ordered
  Product, and the total of that Order is then no longer the sum over its rows.
\<close>

lemma fractional_delete_hits_ordered_product:
  "\<not> sparesOrders plainDecimal
        [PostProduct widget 0, CreateOrder twoWidgets 1, DeleteProduct (JNum (3 / 2))] empty_db"
  "\<not> total_consistent (run plainDecimal
        [PostProduct widget 0, CreateOrder twoWidgets 1, DeleteProduct (JNum (3 / 2))] empty_db)"
  by code_simp+

lemma loadLines_Some:
  "loadLines s items = Some lines \<Longrightarrow>
     lines = map (\<lambda>l. (the (findProduct s (productId l)), quantity l)) items
     \<and> list_all (\<lambda>l. findProduct s (productId l) \<noteq> None) items"
  by (induction items arbitrary: lines) (auto split: option.splits)

lemma loadLines_exists:
  "list_all (\<lambda>l. findProduct s (productId l) \<noteq> None) items \<Longrightarrow> \<exists>lines. loadLines s items = Some lines"
  by (induction items) (auto split: option.splits)

lemma findProduct_id: "findProduct s i = Some p \<Longrightarrow> p_id p = i"
  unfolding findProduct_def by (auto simp: find_Some_iff)

text \<open>
  C2, for a call that passes steps 1 and 2. When the line items are non-empty, positive
  and distinct, every Product exists, and some line item asks for more than its Product
  has, \<open>createOrder\<close> fails with \<open>InsufficientStockError\<close> naming the Product of
  such a line item, and the store it returns is the store it was given: no Order, no
  OrderProduct row, no stock change.
\<close>

theorem createOrder_insufficient_stock:
  assumes "items \<noteq> []" and "list_all (\<lambda>l. 0 < quantity l) items"
    and "distinct (map productId items)"
    and "list_all (\<lambda>l. findProduct s (productId l) \<noteq> None) items"
    and "list_ex (overdrawn s) items"
  shows "\<exists>l \<in> set items. overdrawn s l
       \<and> createOrder items now s = (Inl (InsufficientStockError (productId l)), s)"
proof -
  from loadLines_exists[OF assms(4)] obtain lines where ll: "loadLines s items = Some lines"
    by blast
  from loadLines_Some[OF ll]
  have lines: "lines = map (\<lambda>l. (the (findProduct s (productId l)), quantity l)) items"
    by simp
  from assms(5) obtain l0 where l0: "l0 \<in> set items" "overdrawn s l0"
    by (auto simp: list_ex_iff)
  from l0(2) obtain p0 where "findProduct s (productId l0) = Some p0"
    "p_stockQuantity p0 < quantity l0"
    by (auto simp: overdrawn_def split: option.splits)
  with l0(1) have "(p0, quantity l0) \<in> set lines" unfolding lines by force
  with \<open>p_stockQuantity p0 < quantity l0\<close>
  have "find (\<lambda>(p, q). p_stockQuantity p < q) lines \<noteq> None"
    by (auto simp: find_None_iff)
  then obtain p q where f: "find (\<lambda>(p, q). p_stockQuantity p < q) lines = Some (p, q)"
    by auto
  then have "(p, q) \<in> set lines" and short: "p_stockQuantity p < q"
    by (auto simp: find_Some_iff in_set_conv_nth)
  then obtain l where l: "l \<in> set items" "p = the (findProduct s (productId l))"
    "q = quantity l"
    unfolding lines by auto
  from assms(4) l(1) obtain p' where p': "findProduct s (productId l) = Some p'"
    by (auto simp: list_all_iff)
  with l(2) have pp: "p = p'" by simp
  from p' pp have pid: "p_id p = productId l" by (simp add: findProduct_id)
  from p' pp short l(3) have od: "overdrawn s l" by (simp add: overdrawn_def)
  from assms(1,2,3) have pre: "items \<noteq> []" "\<not> list_ex (\<lambda>l. quantity l \<le> 0) items"
    "distinct (map productId items)"
    by (auto simp: list_all_iff list_ex_iff)
  have "createOrder items now s = (Inl (InsufficientStockError (productId l)), s)"
    unfolding createOrder_def using pre ll f pid by simp
  with l(1) od show ?thesis by blast
qed

theorem createOrder_insufficient_stock_witness:
  "overOrder \<noteq> [] \<and> list_all (\<lambda>l. 0 < quantity l) overOrder
   \<and> distinct (map productId overOrder)
   \<and> list_all (\<lambda>l. findProduct widgetStore (productId l) \<noteq> None) overOrder
   \<and> list_ex (overdrawn widgetStore) overOrder
   \<and> createOrder overOrder 1 widgetStore = (Inl (InsufficientStockError 1), widgetStore)"
proof -
  have a: "overOrder \<noteq> []" and b: "list_all (\<lambda>l. 0 < quantity l) overOrder"
    and c: "distinct (map productId overOrder)"
    by (simp_all add: overOrder_def)
  have d: "list_all (\<lambda>l. findProduct widgetStore (productId l) \<noteq> None) overOrder"
    by (simp add: overOrder_def findProduct_def widgetStore_def widgetRow_def)
  have e: "list_ex (overdrawn widgetStore) overOrder"
    by (simp add: overOrder_def overdrawn_def findProduct_def widgetStore_def widgetRow_def)
  from createOrder_insufficient_stock [OF a b c d e, of 1]
  have "createOrder overOrder 1 widgetStore = (Inl (InsufficientStockError 1), widgetStore)"
    by (simp add: overOrder_def)
  with a b c d e show ?thesis by blast
qed

text \<open>
  C2 as stated fails where an earlier step rejects the call: a line item asking 6 of a
  stock of 5 is answered with \<open>ValidationError\<close> when the Product is listed twice,
  and with \<open>NotFoundError\<close> when another line item names an unknown Product.
\<close>

theorem createOrder_insufficient_stock_counterexample:
  "list_ex (overdrawn widgetStore) repeatedOverOrder
   \<and> createOrder repeatedOverOrder 1 widgetStore
       = (Inl (ValidationError ''productId'' ''repeated''), widgetStore)
   \<and> list_ex (overdrawn widgetStore) unknownOverOrder
   \<and> createOrder unknownOverOrder 1 widgetStore = (Inl NotFoundError, widgetStore)"
  by code_simp

lemma find_filter_order_none: "find (\<lambda>x. o_id x = oid) (filter (\<lambda>x. o_id x \<noteq> oid) os) = None"
  by (induction os) auto

lemma filter_filter_rows_none:
  "filter (\<lambda>r. op_orderId r = oid) (filter (\<lambda>r. op_orderId r \<noteq> oid) rs) = []"
  by (induction rs) auto

lemma cancelOrder_existing:
  assumes "find (\<lambda>x. o_id x = oid) (orders s) = Some ord"
  shows "fst (cancelOrder oid s) = Inr ()
       \<and> products (snd (cancelOrder oid s))
           = map (\<lambda>p. p\<lparr>p_stockQuantity := p_stockQuantity p + orderedQuantity s oid (p_id p)\<rparr>)
               (products s)
       \<and> orderRows (snd (cancelOrder oid s)) oid = []
       \<and> getOrderById (snd (cancelOrder oid s)) oid = Inl NotFoundError"
proof -
  from assms cancelOrder_shape[of oid s]
  have c: "cancelOrder oid s =
       (Inr (),
        s\<lparr>products := fold (\<lambda>r. adjustStock (op_productId r) (op_quantity r))
                           (orderRows s oid) (products s),
          orderProducts := filter (\<lambda>r. op_orderId r \<noteq> oid) (orderProducts s),
          orders := filter (\<lambda>x. o_id x \<noteq> oid) (orders s)\<rparr>)"
    by auto
  show ?thesis
    unfolding c
    by (simp add: fold_adjustStock orderedQuantity_def orderRows_def getOrderById_def
        find_filter_order_none filter_filter_rows_none)
qed

lemma sum_lineRow:
  "sum_list (map op_quantity (filter (\<lambda>r. op_productId r = i) (map (lineRow n) ls)))
     = sum_list (map snd (filter (\<lambda>x. p_id (fst x) = i) ls))"
  by (induction ls) (auto simp: lineRow_def)

lemma sum_neg_lines:
  "sum_list (map (\<lambda>x. - snd x) (filter (\<lambda>x. p_id (fst x) = i) ls))
     = - sum_list (map snd (filter (\<lambda>x. p_id (fst x) = i) (ls :: (product \<times> int) list)))"
  by (induction ls) auto

lemma restore_after_reserve:
  "fold (\<lambda>r. adjustStock (op_productId r) (op_quantity r)) (map (lineRow n) ls)
     (fold (\<lambda>(p, q). adjustStock (p_id p) (- q)) ls ps) = ps"
proof -
  have "fold (\<lambda>(p, q). adjustStock (p_id p) (- q)) ls ps
      = fold (\<lambda>x. adjustStock (p_id (fst x)) (- snd x)) ls ps"
    by (simp add: case_prod_beta')
  then show ?thesis
    by (simp add: fold_adjustStock sum_lineRow sum_neg_lines comp_def map_idI)
qed

lemma createOrder_then_cancel:
  assumes "orderIdsFresh s" and "createOrder items now s = (Inr (ord, rows), s1)"
  shows "cancelOrder (o_id ord) s1 = (Inr (), s\<lparr>nextOrderId := nextOrderId s + 1\<rparr>)"
proof -
  from createOrder_Inr[OF assms(2)] obtain lines where
    s1: "s1 = s\<lparr>products := fold (\<lambda>(p, q). adjustStock (p_id p) (- q)) lines (products s),
                 orders := orders s @ [ord],
                 orderProducts := orderProducts s @ rows,
                 nextOrderId := nextOrderId s + 1\<rparr>"
    and r: "rows = map (lineRow (nextOrderId s)) lines"
    and o: "ord = \<lparr>o_id = nextOrderId s, o_totalPrice = round_half_up_2 (rowsTotal rows),
                 o_createdAt = now\<rparr>"
    by blast
  have oi: "o_id ord = nextOrderId s" by (subst o) simp
  from assms(1) have none: "filter (\<lambda>r. op_orderId r = nextOrderId s) (orderProducts s) = []"
    and allr: "filter (\<lambda>r. op_orderId r \<noteq> nextOrderId s) (orderProducts s) = orderProducts s"
    and allo: "filter (\<lambda>x. o_id x \<noteq> nextOrderId s) (orders s) = orders s"
    and nf: "find (\<lambda>x. o_id x = nextOrderId s) (orders s) = None"
    by (simp_all add: orderIdsFresh_def fresh_rows_none fresh_rows_all fresh_orders_all
        fresh_orders_find)
  have f: "find (\<lambda>x. o_id x = nextOrderId s) (orders s1) = Some ord"
    unfolding s1 using nf oi by (simp add: find_snoc)
  have rows1: "orderRows s1 (nextOrderId s) = map (lineRow (nextOrderId s)) lines"
    unfolding s1 orderRows_def by (simp add: none r)
  have prods: "fold (\<lambda>r. adjustStock (op_productId r) (op_quantity r))
                 (orderRows s1 (nextOrderId s)) (products s1) = products s"
    unfolding rows1 unfolding s1 by (simp add: restore_after_reserve)
  have rs: "filter (\<lambda>r. op_orderId r \<noteq> nextOrderId s) (orderProducts s1) = orderProducts s"
    unfolding s1 by (simp add: allr r)
  have os: "filter (\<lambda>x. o_id x \<noteq> nextOrderId s) (orders s1) = orders s"
    unfolding s1 using oi by (simp add: allo)
  have "cancelOrder (nextOrderId s) s1
      = (Inr (), s1\<lparr>products := products s, orderProducts := orderProducts s,
                     orders := orders s\<rparr>)"
    unfolding cancelOrder_def using f prods rs os by simp
  also have "s1\<lparr>products := products s, orderProducts := orderProducts s, orders := orders s\<rparr>
      = s\<lparr>nextOrderId := nextOrderId s + 1\<rparr>"
    unfolding s1 by simp
  finally show ?thesis unfolding oi .
qed

text \<open>
  C5. For every Order of a store, \<open>cancelOrder\<close> succeeds, gives each Product back
  the quantities of the Order's rows that reference it, leaves no row of the Order, and
  \<open>getById\<close> then fails with \<open>NotFoundError\<close>. Cancelling the Order that
  \<open>createOrder\<close> has just made, on a store reached from the empty one, gives back
  the store as it was before the order, the advanced order sequence apart.
\<close>

theorem cancelOrder_undoes_createOrder:
  "(find (\<lambda>x. o_id x = oid) (orders s) = Some ord \<longrightarrow>
      fst (cancelOrder oid s) = Inr ()
      \<and> products (snd (cancelOrder oid s))
          = map (\<lambda>p. p\<lparr>p_stockQuantity := p_stockQuantity p + orderedQuantity s oid (p_id p)\<rparr>)
              (products s)
      \<and> orderRows (snd (cancelOrder oid s)) oid = []
      \<and> getOrderById (snd (cancelOrder oid s)) oid = Inl NotFoundError)
   \<and> (createOrder items now (run dec rs empty_db) = (Inr (ord', rows), s1) \<longrightarrow>
        cancelOrder (o_id ord') s1
          = (Inr (), (run dec rs empty_db)\<lparr>nextOrderId := nextOrderId (run dec rs empty_db) + 1\<rparr>)
        \<and> products (snd (cancelOrder (o_id ord') s1)) = products (run dec rs empty_db)
        \<and> getOrderById (snd (cancelOrder (o_id ord') s1)) (o_id ord') = Inl NotFoundError)"
proof (intro conjI impI)
  assume e: "find (\<lambda>x. o_id x = oid) (orders s) = Some ord"
  from cancelOrder_existing[OF e]
  show "fst (cancelOrder oid s) = Inr ()"
    and "products (snd (cancelOrder oid s))
          = map (\<lambda>p. p\<lparr>p_stockQuantity := p_stockQuantity p + orderedQuantity s oid (p_id p)\<rparr>)
              (products s)"
    and "orderRows (snd (cancelOrder oid s)) oid = []"
    and "getOrderById (snd (cancelOrder oid s)) oid = Inl NotFoundError"
    by simp_all
next
  let ?s = "run dec rs empty_db"
  assume c: "createOrder items now ?s = (Inr (ord', rows), s1)"
  have f: "orderIdsFresh ?s" by (simp add: run_fresh empty_db_fresh)
  from createOrder_readable[OF f c] have g: "getOrderById s1 (o_id ord') = Inr (ord', rows)"
    by simp
  then obtain x where x: "find (\<lambda>x. o_id x = o_id ord') (orders s1) = Some x"
    by (auto simp: getOrderById_def split: option.splits)
  note rt = createOrder_then_cancel[OF f c]
  show "cancelOrder (o_id ord') s1 = (Inr (), ?s\<lparr>nextOrderId := nextOrderId ?s + 1\<rparr>)"
    by (rule rt)
  show "products (snd (cancelOrder (o_id ord') s1)) = products ?s"
    by (simp add: rt)
  from cancelOrder_existing[OF x]
  show "getOrderById (snd (cancelOrder (o_id ord') s1)) (o_id ord') = Inl NotFoundError"
    by simp
qed

theorem cancelOrder_undoes_createOrder_witness:
  "find (\<lambda>x. o_id x = 1) (orders orderedStore) = Some widgetOrder
   \<and> orderedQuantity orderedStore 1 1 = 2
   \<and> run plainDecimal [PostProduct widget 0] empty_db = widgetStore
   \<and> createOrder twoWidgets 1 widgetStore = (Inr (widgetOrder, [widgetLine]), orderedStore)
   \<and> cancelOrder 1 orderedStore = (Inr (), widgetStore\<lparr>nextOrderId := 2\<rparr>)
   \<and> products (snd (cancelOrder 1 orderedStore)) = [widgetRow]
   \<and> orderRows (snd (cancelOrder 1 orderedStore)) 1 = []
   \<and> getOrderById (snd (cancelOrder 1 orderedStore)) 1 = Inl NotFoundError"
proof -
  have e: "find (\<lambda>x. o_id x = 1) (orders orderedStore) = Some widgetOrder"
    by (simp add: orderedStore_def widgetOrder_def)
  have q: "orderedQuantity orderedStore 1 1 = 2" by code_simp
  have r: "run plainDecimal [PostProduct widget 0] empty_db = widgetStore" by code_simp
  have c: "createOrder twoWidgets 1 (run plainDecimal [PostProduct widget 0] empty_db)
      = (Inr (widgetOrder, [widgetLine]), orderedStore)"
    unfolding r by code_simp
  have i: "o_id widgetOrder = 1" by (simp add: widgetOrder_def)
  have n: "nextOrderId widgetStore + 1 = 2" and p: "products widgetStore = [widgetRow]"
    by (simp_all add: widgetStore_def)
  note t = cancelOrder_undoes_createOrder [where oid = 1 and s = orderedStore
      and ord = widgetOrder and items = twoWidgets and now = 1 and dec = plainDecimal
      and rs = "[PostProduct widget 0]" and ord' = widgetOrder and rows = "[widgetLine]"
      and ?s1.0 = orderedStore]
  from t e have B: "orderRows (snd (cancelOrder 1 orderedStore)) 1 = []" by blast
  from t c have raw: "cancelOrder (o_id widgetOrder) orderedStore
      = (Inr (), (run plainDecimal [PostProduct widget 0] empty_db)
           \<lparr>nextOrderId := nextOrderId (run plainDecimal [PostProduct widget 0] empty_db) + 1\<rparr>)
    \<and> products (snd (cancelOrder (o_id widgetOrder) orderedStore))
        = products (run plainDecimal [PostProduct widget 0] empty_db)
    \<and> getOrderById (snd (cancelOrder (o_id widgetOrder) orderedStore)) (o_id widgetOrder)
        = Inl NotFoundError"
    by blast
  note A = raw [unfolded i r n p]
  note c' = c [unfolded r]
  from A B e q r c' show ?thesis by blast
qed

end
